theory Spec2Isabelle
  imports Main "HOL-Library.Sublist"
begin

section \<open>Values, errors and the HTTP exchange\<close>

text \<open>
  The adapter of \<^verbatim>\<open>src/adapters/echo.go\<close> is modelled with explicit state passing.
  Opaque Go values (payloads, bound inputs, error details, panic values) are elements of
  the type parameter \<open>'v\<close>. An \<^verbatim>\<open>error\<close> interface value is its dynamic type with the
  fields the adapter reads: the six pointer types of the package \<^verbatim>\<open>util/errors\<close> with
  their \<^verbatim>\<open>Kind\<close>, \<^verbatim>\<open>Message\<close> and \<^verbatim>\<open>Details\<close> (pointers are taken to be non-nil),
  \<^verbatim>\<open>*echo.HTTPError\<close> with \<^verbatim>\<open>Code\<close> and \<^verbatim>\<open>Message\<close>, and every other error type
  (\<^verbatim>\<open>fmt.Errorf\<close>, runtime errors) with its text.
\<close>

datatype errors_field =
    ErrorText string
  | FieldErrors "string \<rightharpoonup> string"

datatype 'v http_message =
    SchemaErrorResponse string string errors_field
  | MessageValue 'v

datatype 'v go_error =
    FunctionalError string string 'v
  | TechnicalError string string 'v
  | ForbiddenError string string 'v
  | UnauthorizedError string string 'v
  | ResourceNotFoundError string string 'v
  | ConflictError string string 'v
  | HTTPError int "'v http_message"
  | OtherError string

text \<open>
  A value returned by a handler, as \<^verbatim>\<open>reflect\<close> sees it: nil of a kind that has a nil,
  a non-nil value implementing \<^verbatim>\<open>error\<close>, another non-nil value of a kind that has a nil
  (pointer, map, slice, interface, channel, function), or a value of a kind without nil
  (struct, string, number), on which \<^verbatim>\<open>IsNil\<close> panics.
\<close>

datatype 'v go_value =
    NilValue
  | ErrorValue "'v go_error"
  | PointerValue 'v
  | ScalarValue 'v

text \<open>What \<^verbatim>\<open>panic\<close> carries and \<^verbatim>\<open>recover\<close> returns: an error, or a value that is none.\<close>

datatype 'v panic_value =
    PanicError "'v go_error"
  | PanicValue 'v

text \<open>A Go function with result type \<^verbatim>\<open>error\<close> returns an error or nil, or it panics.\<close>

datatype 'v outcome =
    Returned "'v go_error option"
  | Panicked "'v panic_value"

text \<open>The JSON bodies the adapter hands to \<^verbatim>\<open>c.JSON\<close>.\<close>

datatype 'v body =
    ErrorResponse string string 'v
  | JsonMessage "'v http_message"
  | JsonPayload "'v go_value"
  | JsonString string

subsection \<open>Authentication data\<close>

text \<open>
  A claim of a decoded token is a JSON value; the adapter only distinguishes strings from
  the rest. \<^verbatim>\<open>jwt.MapClaims\<close> is listed in the order in which this run of the program
  iterates over the map; a lookup \<^verbatim>\<open>claims[k]\<close> is \<open>map_of\<close>.
\<close>

datatype claim_value =
    ClaimString string
  | ClaimNumber int
  | ClaimBool bool
  | ClaimNull
  | ClaimArray "claim_value list"
  | ClaimObject "(string \<times> claim_value) list"

datatype jwt_Claims =
    NilClaims
  | MapClaims "(string \<times> claim_value) list"
  | OtherClaims string string

record AuthToken =
  Issuer :: string

record Authentication =
  UserId :: string
  Authenticated :: bool
  TenantId :: string
  Token :: "AuthToken option"
  Roles :: "string list"
  Permissions :: "string list"
  Name :: string
  Email :: string
  PhonerNumber :: string
  Claims :: "string \<rightharpoonup> claim_value"

text \<open>The value stored in the exchange under the key \<^verbatim>\<open>micro.AuthKey\<close>.\<close>

datatype stored_value =
    TokenValue jwt_Claims
  | AuthValue Authentication

text \<open>
  Modelled from the spec: the Request Context \<^verbatim>\<open>micro.Ctx\<close> (package \<^verbatim>\<open>micro\<close> is not
  under src/) "wraps an Authentication Context", or "a default anonymous one", and has
  the field \<^verbatim>\<open>TenantId\<close> that \<^verbatim>\<open>handleRequest\<close> reads.
\<close>

record Ctx =
  ctx_TenantId :: string
  ctx_Auth :: "Authentication option"

subsection \<open>The exchange and its observable effects\<close>

datatype 'v log_line =
    MapHttpResponseLog string "'v go_error"
  | ValidationFailedLog string "'v go_error"
  | HandlingErrorLog string "'v go_error"
  | CurrentTenantLog string
  | RecoveredLog "'v panic_value"

datatype 'v event =
    Logged "'v log_line"
  | ContextCreated Ctx
  | TxBegin
  | TxCommit
  | TxRollback
  | HandlerInvoked Ctx "'v option"
  | Response int "'v body"

text \<open>
  The request as the adapter reads it: the headers (\<^verbatim>\<open>Header.Get\<close> gives the empty
  string for a header that is absent), the request URI, and everything else the binder
  reads, kept opaque.
\<close>

record 'v http_Request =
  Header :: "(string \<times> string) list"
  RequestURI :: string
  Body :: 'v

definition Header_Get :: "'v http_Request \<Rightarrow> string \<Rightarrow> string" where
  "Header_Get r k = (case map_of (Header r) k of None \<Rightarrow> [] | Some v \<Rightarrow> v)"

text \<open>
  \<^verbatim>\<open>echo.Context\<close>: the request, the slot of \<^verbatim>\<open>c.Get\<close>/\<^verbatim>\<open>c.Set\<close> under
  \<^verbatim>\<open>micro.AuthKey\<close> (the only key the adapter uses), and the effects performed so far,
  oldest first: log lines, responses written, and the steps of dispatch (context
  construction, transaction, handler invocation).
\<close>

record 'v echo_Context =
  Request :: "'v http_Request"
  AuthKey :: "stored_value option"
  effects :: "'v event list"

definition emit :: "'v event \<Rightarrow> 'v echo_Context \<Rightarrow> 'v echo_Context" where
  "emit ev c = c\<lparr>effects := effects c @ [ev]\<rparr>"

text \<open>
  \<^verbatim>\<open>c.JSON(code, v)\<close> writes the response and returns nil (serialisation is the
  transport's work; the body is kept as the value that was handed over).
\<close>

definition JSON :: "int \<Rightarrow> 'v body \<Rightarrow> 'v echo_Context \<Rightarrow> 'v go_error option \<times> 'v echo_Context" where
  "JSON code b c = (None, emit (Response code b) c)"

section \<open>The Error Mapper\<close>

definition mapHttpResponse :: "'v go_error \<Rightarrow> 'v echo_Context \<Rightarrow> 'v go_error option \<times> 'v echo_Context" where
  "mapHttpResponse err c =
     (let c1 = emit (Logged (MapHttpResponseLog (RequestURI (Request c)) err)) c in
      case err of
        FunctionalError k m d \<Rightarrow> JSON 400 (ErrorResponse k m d) c1
      | TechnicalError k m d \<Rightarrow> JSON 500 (ErrorResponse k m d) c1
      | ForbiddenError k m d \<Rightarrow> JSON 403 (ErrorResponse k m d) c1
      | UnauthorizedError k m d \<Rightarrow> JSON 401 (ErrorResponse k m d) c1
      | ResourceNotFoundError k m d \<Rightarrow> JSON 404 (ErrorResponse k m d) c1
      | ConflictError k m d \<Rightarrow> JSON 409 (ErrorResponse k m d) c1
      | HTTPError code msg \<Rightarrow> JSON code (JsonMessage msg) c1
      | OtherError t \<Rightarrow> (Some err, c1))"

section \<open>Tenant resolution and the Authentication Context\<close>

text \<open>
  \<^verbatim>\<open>micro.DefaultTenantId\<close> is a constant of the package \<^verbatim>\<open>micro\<close>, which is not under
  src/; every function that reads it takes it as its first parameter.
\<close>

text \<open>\<^verbatim>\<open>strings.Split(s, ",")\<close>, for the one-byte separator the adapter splits at.\<close>

fun strings_Split :: "string \<Rightarrow> char \<Rightarrow> string list" where
  "strings_Split [] sep = [[]]"
| "strings_Split (x # xs) sep =
     (if x = sep then [] # strings_Split xs sep
      else (case strings_Split xs sep of
              [] \<Rightarrow> [[x]]
            | w # ws \<Rightarrow> (x # w) # ws))"

definition type_assertion_panic :: "'v panic_value" where
  "type_assertion_panic = PanicError (OtherError ''interface conversion'')"

definition nil_dereference_panic :: "'v panic_value" where
  "nil_dereference_panic =
     PanicError (OtherError ''invalid memory address or nil pointer dereference'')"

definition IsNil_panic :: "'v panic_value" where
  "IsNil_panic = PanicError (OtherError ''reflect: call of reflect.Value.IsNil on a value without nil'')"

text \<open>The first middleware of \<^verbatim>\<open>NewEchoAdapter\<close> (lines 80 to 93), before it calls \<^verbatim>\<open>next\<close>.\<close>

definition anonymous :: "string \<Rightarrow> Authentication" where
  "anonymous tenantId =
     \<lparr>UserId = [], Authenticated = False, TenantId = tenantId, Token = None, Roles = [],
      Permissions = [], Name = [], Email = [], PhonerNumber = [], Claims = Map.empty\<rparr>"

definition tenant_middleware ::
  "string \<Rightarrow> ('v echo_Context \<Rightarrow> 'r) \<Rightarrow> 'v echo_Context \<Rightarrow> 'r" where
  "tenant_middleware DefaultTenantId next c =
     (let tenantId0 = Header_Get (Request c) ''X-TenantId'';
          tenantId = (if tenantId0 = [] then DefaultTenantId else tenantId0);
          auth = anonymous tenantId
      in next (c\<lparr>AuthKey := Some (AuthValue auth)\<rparr>))"

record RouterConfig =
  MultiTenant :: bool
  TokenProvider :: "string option"

definition Skipper :: "'v echo_Context \<Rightarrow> bool" where
  "Skipper c =
     (let authz = Header_Get (Request c) ''Authorization''
      in if authz = [] \<or> \<not> prefix ''Bearer '' authz then True else False)"

definition ErrorHandler :: "'v echo_Context \<Rightarrow> string \<Rightarrow> 'v go_error option \<times> 'v echo_Context" where
  "ErrorHandler c err = JSON 401 (JsonString err) c"

text \<open>\<^verbatim>\<open>GetSubject\<close> and \<^verbatim>\<open>GetIssuer\<close> of the token library; the adapter drops their error.\<close>

definition parseString :: "(string \<times> claim_value) list \<Rightarrow> string \<Rightarrow> string" where
  "parseString m key =
     (case map_of m key of
        None \<Rightarrow> []
      | Some (ClaimString s) \<Rightarrow> s
      | Some _ \<Rightarrow> [])"

fun GetSubject :: "jwt_Claims \<Rightarrow> 'v panic_value + string" where
  "GetSubject NilClaims = Inl nil_dereference_panic"
| "GetSubject (MapClaims m) = Inr (parseString m ''sub'')"
| "GetSubject (OtherClaims sub iss) = Inr sub"

fun GetIssuer :: "jwt_Claims \<Rightarrow> 'v panic_value + string" where
  "GetIssuer NilClaims = Inl nil_dereference_panic"
| "GetIssuer (MapClaims m) = Inr (parseString m ''iss'')"
| "GetIssuer (OtherClaims sub iss) = Inr iss"

text \<open>The assertion \<^verbatim>\<open>value.(string)\<close>, which panics on every other dynamic type.\<close>

fun assert_string :: "claim_value \<Rightarrow> 'v panic_value + string" where
  "assert_string (ClaimString s) = Inr s"
| "assert_string _ = Inl type_assertion_panic"

definition and_then :: "'e + 'a \<Rightarrow> ('a \<Rightarrow> 'e + 'b) \<Rightarrow> 'e + 'b" where
  "and_then r f = (case r of Inl e \<Rightarrow> Inl e | Inr a \<Rightarrow> f a)"

text \<open>
  \<^verbatim>\<open>if value, ok := claims[key]; ok { field = f(value.(string)) }\<close>: one optional claim.
\<close>

definition optional_claim ::
  "(string \<times> claim_value) list \<Rightarrow> string \<Rightarrow> (string \<Rightarrow> Authentication \<Rightarrow> Authentication) \<Rightarrow>
   Authentication \<Rightarrow> 'v panic_value + Authentication" where
  "optional_claim claims key set_field auth =
     (case map_of claims key of
        None \<Rightarrow> Inr auth
      | Some v \<Rightarrow> and_then (assert_string v) (\<lambda>s. Inr (set_field s auth)))"

definition phone_claim ::
  "(string \<times> claim_value) list \<Rightarrow> Authentication \<Rightarrow> 'v panic_value + Authentication" where
  "phone_claim claims auth =
     (case map_of claims ''phone'' of
        Some v \<Rightarrow> and_then (assert_string v) (\<lambda>s. Inr (auth\<lparr>PhonerNumber := s\<rparr>))
      | None \<Rightarrow> optional_claim claims ''phone_number'' (\<lambda>s a. a\<lparr>PhonerNumber := s\<rparr>) auth)"

text \<open>The loop \<^verbatim>\<open>for key, value := range claims { auth.Claims[key] = value }\<close>.\<close>

definition copy_claims :: "(string \<times> claim_value) list \<Rightarrow> string \<rightharpoonup> claim_value" where
  "copy_claims claims = fold (\<lambda>(key, v) m. m(key \<mapsto> v)) claims Map.empty"

definition map_claims ::
  "(string \<times> claim_value) list \<Rightarrow> Authentication \<Rightarrow> 'v panic_value + Authentication" where
  "map_claims claims auth =
     and_then (optional_claim claims ''roles'' (\<lambda>s a. a\<lparr>Roles := strings_Split s CHR '',''\<rparr>) auth) (\<lambda>auth.
     and_then (optional_claim claims ''role'' (\<lambda>s a. a\<lparr>Roles := strings_Split s CHR '',''\<rparr>) auth) (\<lambda>auth.
     and_then (optional_claim claims ''permissions'' (\<lambda>s a. a\<lparr>Permissions := strings_Split s CHR '',''\<rparr>) auth) (\<lambda>auth.
     and_then (optional_claim claims ''name'' (\<lambda>s a. a\<lparr>Name := s\<rparr>) auth) (\<lambda>auth.
     and_then (optional_claim claims ''email'' (\<lambda>s a. a\<lparr>Email := s\<rparr>) auth) (\<lambda>auth.
     and_then (phone_claim claims auth) (\<lambda>auth.
     Inr (auth\<lparr>Claims := copy_claims claims\<rparr>)))))))"

text \<open>
  The \<^verbatim>\<open>SuccessHandler\<close> of the token middleware (lines 146 to 202). It returns nothing;
  \<open>Inl\<close> is a panic, \<open>Inr\<close> the exchange it leaves.
\<close>

definition SuccessHandler ::
  "string \<Rightarrow> RouterConfig \<Rightarrow> 'v echo_Context \<Rightarrow> 'v panic_value + 'v echo_Context" where
  "SuccessHandler DefaultTenantId config c =
     (case AuthKey c of
        None \<Rightarrow> Inr c
      | Some (AuthValue a) \<Rightarrow> Inl type_assertion_panic
      | Some (TokenValue claims0) \<Rightarrow>
          and_then (GetSubject claims0) (\<lambda>sub.
          and_then (GetIssuer claims0) (\<lambda>issuer.
            let tenantId = (if MultiTenant config \<and> issuer \<noteq> [] then issuer else DefaultTenantId);
                auth = \<lparr>UserId = sub, Authenticated = True, TenantId = tenantId,
                        Token = Some \<lparr>Issuer = issuer\<rparr>, Roles = [], Permissions = [],
                        Name = [], Email = [], PhonerNumber = [], Claims = Map.empty\<rparr>
            in and_then
                 (case claims0 of
                    MapClaims claims \<Rightarrow> map_claims claims auth
                  | _ \<Rightarrow> Inr auth)
                 (\<lambda>auth. Inr (c\<lparr>AuthKey := Some (AuthValue auth)\<rparr>)))))"

text \<open>
  The token middleware, as the external library runs the three callbacks configured in
  \<^verbatim>\<open>NewEchoAdapter\<close>: a skipped request goes to \<^verbatim>\<open>next\<close> untouched; otherwise the token
  after the prefix is verified by \<open>ParseToken\<close> (the library's work, a parameter here), a
  failure goes to \<^verbatim>\<open>ErrorHandler\<close>, and a verified token is stored under
  \<^verbatim>\<open>micro.AuthKey\<close> before \<^verbatim>\<open>SuccessHandler\<close> and \<^verbatim>\<open>next\<close> run.
\<close>

definition token_middleware ::
  "string \<Rightarrow> RouterConfig \<Rightarrow> (string \<Rightarrow> string + jwt_Claims) \<Rightarrow>
   ('v echo_Context \<Rightarrow> 'v outcome \<times> 'v echo_Context) \<Rightarrow>
   'v echo_Context \<Rightarrow> 'v outcome \<times> 'v echo_Context" where
  "token_middleware DefaultTenantId config ParseToken next c =
     (if Skipper c then next c
      else (case ParseToken (drop 7 (Header_Get (Request c) ''Authorization'')) of
              Inl err \<Rightarrow> (let (r, c1) = ErrorHandler c err in (Returned r, c1))
            | Inr token \<Rightarrow>
                (case SuccessHandler DefaultTenantId config (c\<lparr>AuthKey := Some (TokenValue token)\<rparr>) of
                   Inl p \<Rightarrow> (Panicked p, c\<lparr>AuthKey := Some (TokenValue token)\<rparr>)
                 | Inr c1 \<Rightarrow> next c1)))"

text \<open>
  The middlewares of \<^verbatim>\<open>NewEchoAdapter\<close> that touch the Authentication Context, in the
  order of registration; the others (compression, request id, CORS, logging, recovery,
  body limit) neither read nor write \<^verbatim>\<open>micro.AuthKey\<close>.
\<close>

definition NewEchoAdapter_middlewares ::
  "string \<Rightarrow> RouterConfig \<Rightarrow> (string \<Rightarrow> string + jwt_Claims) \<Rightarrow>
   ('v echo_Context \<Rightarrow> 'v outcome \<times> 'v echo_Context) \<Rightarrow>
   'v echo_Context \<Rightarrow> 'v outcome \<times> 'v echo_Context" where
  "NewEchoAdapter_middlewares DefaultTenantId config ParseToken next =
     tenant_middleware DefaultTenantId
       (case TokenProvider config of
          None \<Rightarrow> next
        | Some key \<Rightarrow> token_middleware DefaultTenantId config ParseToken next)"

section \<open>The Generic Dispatcher\<close>

text \<open>
  Modelled from the spec: \<^verbatim>\<open>micro.NewCtx\<close> and \<^verbatim>\<open>micro.NewAuthCtx\<close> (package \<^verbatim>\<open>micro\<close>
  is not under src/). The Request Context is "constructed per request from the
  Authentication Context (or a default anonymous one)".
\<close>

definition NewCtx :: "string \<Rightarrow> Ctx" where
  "NewCtx tenantId = \<lparr>ctx_TenantId = tenantId, ctx_Auth = None\<rparr>"

definition NewAuthCtx :: "Authentication \<Rightarrow> Ctx" where
  "NewAuthCtx auth = \<lparr>ctx_TenantId = TenantId auth, ctx_Auth = Some auth\<rparr>"

definition createRouteContext :: "string \<Rightarrow> 'v echo_Context \<Rightarrow> 'v panic_value + Ctx" where
  "createRouteContext DefaultTenantId c =
     (case AuthKey c of
        None \<Rightarrow> Inr (NewCtx DefaultTenantId)
      | Some (AuthValue auth) \<Rightarrow> Inr (NewAuthCtx auth)
      | Some (TokenValue t) \<Rightarrow> Inl type_assertion_panic)"

text \<open>
  Modelled from the spec: the method \<^verbatim>\<open>Tx\<close> of \<^verbatim>\<open>micro.Ctx\<close> (not under src/). The
  transactional-scope collaborator, "given a unit of work (function of the Request Context
  returning an error), executes it with commit-on-success / rollback-on-error semantics"
  and "must guarantee rollback/cleanup on any exit path"; the error of the unit of work is
  the error of \<^verbatim>\<open>Tx\<close>, and a panic of the unit of work leaves \<^verbatim>\<open>Tx\<close> as a panic, to be
  "recovered by the caller (Router Facade)".
\<close>

definition Tx ::
  "Ctx \<Rightarrow> (Ctx \<Rightarrow> 'v echo_Context \<Rightarrow> 'v outcome \<times> 'v echo_Context) \<Rightarrow>
   'v echo_Context \<Rightarrow> 'v outcome \<times> 'v echo_Context" where
  "Tx ctx work c =
     (case work ctx (emit TxBegin c) of
        (Returned None, c1) \<Rightarrow> (Returned None, emit TxCommit c1)
      | (Returned (Some err), c1) \<Rightarrow> (Returned (Some err), emit TxRollback c1)
      | (Panicked p, c1) \<Rightarrow> (Panicked p, emit TxRollback c1))"

subsection \<open>Input binding\<close>

text \<open>
  What \<^verbatim>\<open>validate.Struct\<close> of the validation library returns: nil, the list of failed
  fields with the failed tag of each, or its error for a value that is not a struct.
\<close>

datatype validation_result =
    Valid
  | ValidationErrors "(string \<times> string) list"
  | InvalidValidationError

text \<open>The type of a handler's parameter: the Request Context type, or another type by name.\<close>

datatype go_type = CtxType | OtherType string

text \<open>
  The external collaborators of binding, as parameters: the zero value of a declared
  input type (\<^verbatim>\<open>reflect.New(inputType).Elem()\<close>), the transport's binder (an error text,
  or the populated input) and the validator.
\<close>

record 'v collaborators =
  reflect_Zero :: "go_type \<Rightarrow> 'v"
  binder_Bind :: "'v http_Request \<Rightarrow> 'v \<Rightarrow> string + 'v"
  binder_BindHeaders :: "'v http_Request \<Rightarrow> 'v \<Rightarrow> string + 'v"
  validate_Struct :: "'v \<Rightarrow> validation_result"

definition NewHTTPError :: "int \<Rightarrow> 'v http_message \<Rightarrow> 'v go_error" where
  "NewHTTPError code message = HTTPError code message"

text \<open>The loop \<^verbatim>\<open>for _, e := range validationErrors { errs[e.Field()] = e.Tag() }\<close>.\<close>

definition field_errors :: "(string \<times> string) list \<Rightarrow> string \<rightharpoonup> string" where
  "field_errors validationErrors = fold (\<lambda>(field, tag) errs. errs(field \<mapsto> tag)) validationErrors Map.empty"

text \<open>
  \<^verbatim>\<open>Bind\<close> writes through the pointer \<^verbatim>\<open>input\<close>: the second component is the input as
  \<^verbatim>\<open>Bind\<close> leaves it.
\<close>

definition Bind :: "'v collaborators \<Rightarrow> 'v echo_Context \<Rightarrow> 'v \<Rightarrow> 'v outcome \<times> 'v" where
  "Bind E c input =
     (case binder_Bind E (Request c) input of
        Inl err \<Rightarrow>
          (Returned (Some (NewHTTPError 400
             (SchemaErrorResponse ''input.bindind'' ''invalid_request_payload'' (ErrorText err)))), input)
      | Inr input1 \<Rightarrow>
          (case binder_BindHeaders E (Request c) input1 of
             Inl err \<Rightarrow>
               (Returned (Some (NewHTTPError 400
                  (SchemaErrorResponse ''input.bindind'' ''invalid_request_payload'' (ErrorText err)))), input1)
           | Inr input2 \<Rightarrow>
               (case validate_Struct E input2 of
                  Valid \<Rightarrow> (Returned None, input2)
                | InvalidValidationError \<Rightarrow> (Panicked type_assertion_panic, input2)
                | ValidationErrors validationErrors \<Rightarrow>
                    (Returned (Some (NewHTTPError 400
                       (SchemaErrorResponse ''validation'' ''validation.failed''
                          (FieldErrors (field_errors validationErrors))))), input2))))"

subsection \<open>Handlers and dispatch\<close>

text \<open>
  A handler is the \<^verbatim>\<open>interface{}\<close> given at registration: the nil interface, a value that
  is not a function, or a function with the types of its parameters and its behaviour when called with the Request Context
  and, if it has a second parameter, the bound input: it returns values or panics.
\<close>

datatype 'v call_result =
    Returns "'v go_value list"
  | Panics "'v panic_value"

datatype 'v handler =
    NilHandler
  | NonFunc 'v
  | Func "go_type list" "Ctx \<Rightarrow> 'v option \<Rightarrow> 'v call_result"

text \<open>
  Lines 374 to 378: the variable \<^verbatim>\<open>err\<close> is the named result of \<^verbatim>\<open>handleRequest\<close>, which
  only \<^verbatim>\<open>Bind\<close> assigns.
\<close>

definition respond ::
  "'v go_error option \<Rightarrow> 'v go_value \<Rightarrow> 'v echo_Context \<Rightarrow> 'v outcome \<times> 'v echo_Context" where
  "respond err result c =
     (case err of
        Some e \<Rightarrow>
          (let (r, c1) = mapHttpResponse e (emit (Logged (HandlingErrorLog (RequestURI (Request c)) e)) c)
           in (Returned r, c1))
      | None \<Rightarrow> (let (r, c1) = JSON 200 (JsonPayload result) c in (Returned r, c1)))"

text \<open>Lines 358 to 378: the call and the interpretation of what it returns.\<close>

definition invoke ::
  "(Ctx \<Rightarrow> 'v option \<Rightarrow> 'v call_result) \<Rightarrow> 'v go_error option \<Rightarrow> Ctx \<Rightarrow> 'v option \<Rightarrow>
   'v echo_Context \<Rightarrow> 'v outcome \<times> 'v echo_Context" where
  "invoke call err tx input c =
     (let c1 = emit (HandlerInvoked tx input) c in
      case call tx input of
        Panics p \<Rightarrow> (Panicked p, c1)
      | Returns res \<Rightarrow>
          if length res = 1 then respond err (res ! 0) c1
          else if length res = 2 then
            (case res ! 1 of
               NilValue \<Rightarrow> respond err (res ! 0) c1
             | ErrorValue e \<Rightarrow> (Returned (Some e), c1)
             | PointerValue v \<Rightarrow> (Panicked type_assertion_panic, c1)
             | ScalarValue v \<Rightarrow> (Panicked IsNil_panic, c1))
          else (Returned (Some (OtherError ''invalid handler return type'')), c1))"

text \<open>Lines 343 to 379: the unit of work that \<^verbatim>\<open>handleRequest\<close> passes to \<^verbatim>\<open>Tx\<close>.\<close>

definition unit_of_work ::
  "'v collaborators \<Rightarrow> go_type list \<Rightarrow> (Ctx \<Rightarrow> 'v option \<Rightarrow> 'v call_result) \<Rightarrow>
   Ctx \<Rightarrow> 'v echo_Context \<Rightarrow> 'v outcome \<times> 'v echo_Context" where
  "unit_of_work E ins call tx c =
     (if length ins = 2 then
        (case Bind E c (reflect_Zero E (ins ! 1)) of
           (Panicked p, inputValue) \<Rightarrow> (Panicked p, c)
         | (Returned (Some err), inputValue) \<Rightarrow>
             (Returned (Some err), emit (Logged (ValidationFailedLog (RequestURI (Request c)) err)) c)
         | (Returned None, inputValue) \<Rightarrow> invoke call None tx (Some inputValue) c)
      else invoke call None tx None c)"

definition handleRequest ::
  "string \<Rightarrow> 'v collaborators \<Rightarrow> 'v echo_Context \<Rightarrow> 'v handler \<Rightarrow> 'v outcome \<times> 'v echo_Context" where
  "handleRequest DefaultTenantId E c handler =
     (case handler of
        NilHandler \<Rightarrow> (Panicked nil_dereference_panic, c)
      | NonFunc v \<Rightarrow> (Returned (Some (OtherError ''controller method is not a function'')), c)
      | Func ins call \<Rightarrow>
          (let numIn = length ins in
           if numIn = 0 then
             (Returned (Some (OtherError
                ''controller method must have at least one argument (micro.Ctx)'')), c)
           else if numIn > 2 then
             (Returned (Some (OtherError
                ''controller method must have at most two arguments (micro.Ctx, input binding)'')), c)
           else if ins ! 0 \<noteq> CtxType then
             (Returned (Some (OtherError
                ''handler must be a function with the first argument of type micro.Ctx'')), c)
           else
             (case createRouteContext DefaultTenantId c of
                Inl p \<Rightarrow> (Panicked p, c)
              | Inr ctx \<Rightarrow>
                  (let c1 = emit (ContextCreated ctx) c;
                       c2 = (if ctx_TenantId ctx = [] then c1
                             else emit (Logged (CurrentTenantLog (ctx_TenantId ctx))) c1)
                   in Tx ctx (unit_of_work E ins call) c2))))"

section \<open>The Router Facade\<close>

text \<open>
  The functions that \<^verbatim>\<open>request\<close> registers for a route: \<^verbatim>\<open>handleRequest\<close> under a deferred
  \<^verbatim>\<open>recover\<close>. The assertion \<^verbatim>\<open>err0.(error)\<close> of the deferred function panics in its turn
  when the recovered value is no error.
\<close>

definition echoRouterAdapter_request ::
  "string \<Rightarrow> 'v collaborators \<Rightarrow> 'v handler \<Rightarrow> 'v echo_Context \<Rightarrow> 'v outcome \<times> 'v echo_Context" where
  "echoRouterAdapter_request DefaultTenantId E handler c =
     (case handleRequest DefaultTenantId E c handler of
        (Returned r, c1) \<Rightarrow> (Returned r, c1)
      | (Panicked err0, c1) \<Rightarrow>
          (case err0 of
             PanicError e \<Rightarrow> (let (r, c2) = mapHttpResponse e c1 in (Returned r, c2))
           | PanicValue v \<Rightarrow> (Panicked type_assertion_panic, c1)))"

definition echoGroupRoute_request ::
  "string \<Rightarrow> 'v collaborators \<Rightarrow> 'v handler \<Rightarrow> 'v echo_Context \<Rightarrow> 'v outcome \<times> 'v echo_Context" where
  "echoGroupRoute_request DefaultTenantId E handler c =
     (case handleRequest DefaultTenantId E c handler of
        (Returned r, c1) \<Rightarrow> (Returned r, c1)
      | (Panicked err0, c1) \<Rightarrow>
          (let c2 = emit (Logged (RecoveredLog err0)) c1 in
           case err0 of
             PanicError e \<Rightarrow> (let (r, c3) = mapHttpResponse e c2 in (Returned r, c3))
           | PanicValue v \<Rightarrow> (Panicked type_assertion_panic, c2)))"

section \<open>Notions used by the properties\<close>

text \<open>The six kinds of the error taxonomy.\<close>

fun taxonomy :: "'v go_error \<Rightarrow> bool" where
  "taxonomy (FunctionalError k m d) = True"
| "taxonomy (TechnicalError k m d) = True"
| "taxonomy (ForbiddenError k m d) = True"
| "taxonomy (UnauthorizedError k m d) = True"
| "taxonomy (ResourceNotFoundError k m d) = True"
| "taxonomy (ConflictError k m d) = True"
| "taxonomy (HTTPError code msg) = False"
| "taxonomy (OtherError t) = False"

text \<open>The Authentication Context that \<^verbatim>\<open>SuccessHandler\<close> leaves in the exchange, if any.\<close>

definition resulting_Authentication :: "'v panic_value + 'v echo_Context \<Rightarrow> Authentication option" where
  "resulting_Authentication r =
     (case r of
        Inl p \<Rightarrow> None
      | Inr c \<Rightarrow> (case AuthKey c of Some (AuthValue auth) \<Rightarrow> Some auth | _ \<Rightarrow> None))"

text \<open>
  The optional claims that \<^verbatim>\<open>SuccessHandler\<close> asserts to be strings: each of them is a
  string or absent (\<^verbatim>\<open>phone_number\<close> is only read when \<^verbatim>\<open>phone\<close> is absent).
\<close>

fun string_or_absent :: "claim_value option \<Rightarrow> bool" where
  "string_or_absent None = True"
| "string_or_absent (Some (ClaimString s)) = True"
| "string_or_absent (Some _) = False"

definition optional_claims_are_strings :: "(string \<times> claim_value) list \<Rightarrow> bool" where
  "optional_claims_are_strings claims =
     (string_or_absent (map_of claims ''roles'') \<and>
      string_or_absent (map_of claims ''role'') \<and>
      string_or_absent (map_of claims ''permissions'') \<and>
      string_or_absent (map_of claims ''name'') \<and>
      string_or_absent (map_of claims ''email'') \<and>
      string_or_absent (map_of claims ''phone'') \<and>
      (map_of claims ''phone'' = None \<longrightarrow> string_or_absent (map_of claims ''phone_number'')))"

text \<open>
  The handler shapes that dispatch rejects: not callable (the nil interface, or a value
  that is no function), no parameter, more than two parameters, or a first parameter
  that is not the Request Context type.
\<close>

fun malformed :: "'v handler \<Rightarrow> bool" where
  "malformed NilHandler = True"
| "malformed (NonFunc v) = True"
| "malformed (Func ins call) = (length ins = 0 \<or> length ins > 2 \<or> hd ins \<noteq> CtxType)"

definition is_Response :: "'v event \<Rightarrow> bool" where
  "is_Response ev = (case ev of Response code b \<Rightarrow> True | _ \<Rightarrow> False)"

subsection \<open>Sample inputs\<close>

text \<open>
  A request without headers, collaborators for inputs that are numbers (the binder takes
  the input from the request, the validator requires the field \<^verbatim>\<open>name\<close> of a zero input),
  and a few handlers.
\<close>

definition sample_request :: "nat http_Request" where
  "sample_request = \<lparr>Header = [], RequestURI = ''/orders'', Body = 0\<rparr>"

definition sample_exchange :: "nat echo_Context" where
  "sample_exchange = \<lparr>Request = sample_request, AuthKey = None, effects = []\<rparr>"

definition sample_collaborators :: "nat collaborators" where
  "sample_collaborators =
     \<lparr>reflect_Zero = (\<lambda>t. 0),
      binder_Bind = (\<lambda>r input. Inr (Body r)),
      binder_BindHeaders = (\<lambda>r input. Inr input),
      validate_Struct = (\<lambda>input. if input = 0 then ValidationErrors [(''name'', ''required'')] else Valid)\<rparr>"

definition failing_handler :: "nat handler" where
  "failing_handler =
     Func [CtxType] (\<lambda>ctx input. Returns [NilValue, ErrorValue (FunctionalError ''order'' ''order.invalid'' 7)])"

definition panicking_handler :: "nat panic_value \<Rightarrow> nat handler" where
  "panicking_handler p = Func [CtxType] (\<lambda>ctx input. Panics p)"


definition sample_config :: RouterConfig where
  "sample_config = \<lparr>MultiTenant = True, TokenProvider = Some ''signing-key''\<rparr>"

definition sample_claims :: "(string \<times> claim_value) list" where
  "sample_claims =
     [(''sub'', ClaimString ''u1''), (''iss'', ClaimString ''acme.org''),
      (''roles'', ClaimString ''admin,editor'')]"

definition with_token :: "(string \<times> claim_value) list \<Rightarrow> nat echo_Context" where
  "with_token claims = sample_exchange\<lparr>AuthKey := Some (TokenValue (MapClaims claims))\<rparr>"

section \<open>Basic facts\<close>

lemma effects_emit [simp]: "effects (emit ev c) = effects c @ [ev]"
  by (simp add: emit_def)

lemma AuthKey_emit [simp]: "AuthKey (emit ev c) = AuthKey c"
  by (simp add: emit_def)

lemma Request_emit [simp]: "Request (emit ev c) = Request c"
  by (simp add: emit_def)

lemma Header_Get_absent: "map_of (Header r) k = None \<Longrightarrow> Header_Get r k = []"
  by (simp add: Header_Get_def)

lemma fold_update: "fold (\<lambda>(k, v) m. m(k \<mapsto> v)) xs m0 = m0 ++ map_of (rev xs)"
  by (induction xs arbitrary: m0) (auto simp: map_add_def fun_eq_iff split: option.splits)

lemma map_of_rev_distinct:
  assumes "distinct (map fst xs)"
  shows "map_of (rev xs) = map_of xs"
proof -
  have "distinct (map fst (rev xs))"
    using assms by (simp add: rev_map [symmetric])
  moreover have "set (rev xs) = set xs"
    by simp
  ultimately show ?thesis
    using assms map_of_inject_set [of "rev xs" xs] by blast
qed

lemma copy_claims_map_of: "distinct (map fst claims) \<Longrightarrow> copy_claims claims = map_of claims"
  by (simp add: copy_claims_def fold_update map_of_rev_distinct)

lemma and_then_Inr: "and_then r f = Inr b \<longleftrightarrow> (\<exists>a. r = Inr a \<and> f a = Inr b)"
  by (cases r) (simp_all add: and_then_def)

lemma assert_string_Inr: "assert_string v = (Inr s :: 'v panic_value + string) \<longleftrightarrow> v = ClaimString s"
  by (cases v) simp_all

lemma string_or_absent_cases:
  "string_or_absent x \<longleftrightarrow> x = None \<or> (\<exists>s. x = Some (ClaimString s))"
  by (cases x rule: string_or_absent.cases) simp_all



lemmas dispatch_defs =
  echoRouterAdapter_request_def echoGroupRoute_request_def handleRequest_def createRouteContext_def
  Tx_def unit_of_work_def invoke_def respond_def Bind_def mapHttpResponse_def JSON_def emit_def
  NewCtx_def NewAuthCtx_def Let_def sample_exchange_def sample_request_def sample_collaborators_def

section \<open>Properties of the Error Mapper\<close>

text \<open>
  Claim C1. For each of the six kinds of the error taxonomy (Functional, Technical,
  Forbidden, Unauthorized, ResourceNotFound, Conflict), \<^verbatim>\<open>mapHttpResponse\<close> logs the error,
  writes the status 400, 500, 403, 401, 404, 409 respectively with a body that carries
  the kind, the message and the details of the error unchanged, and returns nil.
\<close>

theorem error_mapper_taxonomy:
  "mapHttpResponse (FunctionalError k m d) c =
     (None, emit (Response 400 (ErrorResponse k m d))
        (emit (Logged (MapHttpResponseLog (RequestURI (Request c)) (FunctionalError k m d))) c)) \<and>
   mapHttpResponse (TechnicalError k m d) c =
     (None, emit (Response 500 (ErrorResponse k m d))
        (emit (Logged (MapHttpResponseLog (RequestURI (Request c)) (TechnicalError k m d))) c)) \<and>
   mapHttpResponse (ForbiddenError k m d) c =
     (None, emit (Response 403 (ErrorResponse k m d))
        (emit (Logged (MapHttpResponseLog (RequestURI (Request c)) (ForbiddenError k m d))) c)) \<and>
   mapHttpResponse (UnauthorizedError k m d) c =
     (None, emit (Response 401 (ErrorResponse k m d))
        (emit (Logged (MapHttpResponseLog (RequestURI (Request c)) (UnauthorizedError k m d))) c)) \<and>
   mapHttpResponse (ResourceNotFoundError k m d) c =
     (None, emit (Response 404 (ErrorResponse k m d))
        (emit (Logged (MapHttpResponseLog (RequestURI (Request c)) (ResourceNotFoundError k m d))) c)) \<and>
   mapHttpResponse (ConflictError k m d) c =
     (None, emit (Response 409 (ErrorResponse k m d))
        (emit (Logged (MapHttpResponseLog (RequestURI (Request c)) (ConflictError k m d))) c))"
  by (simp add: mapHttpResponse_def JSON_def)

text \<open>
  Claim C8, as the code has it. An error that is none of the six taxonomy kinds is
  returned unmapped, with no response written, unless it is the transport's own
  \<^verbatim>\<open>*echo.HTTPError\<close>: that one is written with its own code and message, and nil is
  returned.
\<close>

theorem unmapped_errors:
  "\<not> taxonomy err \<Longrightarrow>
   mapHttpResponse err c =
     (case err of
        HTTPError code msg \<Rightarrow>
          (None, emit (Response code (JsonMessage msg))
             (emit (Logged (MapHttpResponseLog (RequestURI (Request c)) err)) c))
      | _ \<Rightarrow> (Some err, emit (Logged (MapHttpResponseLog (RequestURI (Request c)) err)) c))"
  by (cases err) (simp_all add: mapHttpResponse_def JSON_def)

theorem unmapped_errors_witness:
  "\<not> taxonomy (OtherError ''boom'' :: nat go_error) \<and>
   mapHttpResponse (OtherError ''boom'') sample_exchange =
     (Some (OtherError ''boom''),
      sample_exchange\<lparr>effects := [Logged (MapHttpResponseLog ''/orders'' (OtherError ''boom''))]\<rparr>)"
  using unmapped_errors [of "OtherError ''boom''" sample_exchange]
  by (simp add: emit_def sample_exchange_def sample_request_def)

text \<open>
  Claim C8 as stated fails at a transport error: it is none of the six kinds, and the
  Error Mapper does not return it but writes a response from it.
\<close>

theorem http_error_is_mapped_counterexample:
  "\<not> taxonomy (HTTPError 404 (MessageValue (1::nat))) \<and>
   fst (mapHttpResponse (HTTPError 404 (MessageValue 1)) sample_exchange)
     \<noteq> Some (HTTPError 404 (MessageValue (1::nat))) \<and>
   effects (snd (mapHttpResponse (HTTPError 404 (MessageValue 1)) sample_exchange)) =
     [Logged (MapHttpResponseLog ''/orders'' (HTTPError 404 (MessageValue 1))),
      Response 404 (JsonMessage (MessageValue 1))]"
  by (simp add: mapHttpResponse_def JSON_def sample_exchange_def sample_request_def)

section \<open>Properties of the Authentication Context\<close>

text \<open>
  Claim C6. A request without \<^verbatim>\<open>Authorization\<close> header passes the token middleware
  untouched (whether or not a token provider is configured), so the route sees the
  Authentication Context of the first middleware: not authenticated, with the tenant of
  the header \<^verbatim>\<open>X-TenantId\<close> when that is non-empty and \<^verbatim>\<open>micro.DefaultTenantId\<close>
  otherwise. The tenant is then never empty, \<^verbatim>\<open>micro.DefaultTenantId\<close> being non-empty
  (the constant is not under src/; the specification calls it a well-known sentinel).
\<close>

theorem unauthenticated_request:
  "map_of (Header (Request c)) ''Authorization'' = None \<Longrightarrow>
   NewEchoAdapter_middlewares D config ParseToken next c =
     next (c\<lparr>AuthKey := Some (AuthValue (anonymous
       (if Header_Get (Request c) ''X-TenantId'' = [] then D
        else Header_Get (Request c) ''X-TenantId'')))\<rparr>) \<and>
   Authenticated (anonymous tenantId) = False \<and>
   TenantId (anonymous tenantId) = tenantId \<and>
   (D \<noteq> [] \<longrightarrow>
      (if Header_Get (Request c) ''X-TenantId'' = [] then D
       else Header_Get (Request c) ''X-TenantId'') \<noteq> [])"
  by (simp add: NewEchoAdapter_middlewares_def tenant_middleware_def token_middleware_def
      Skipper_def Header_Get_absent anonymous_def Let_def split: option.split)

theorem unauthenticated_request_witness:
  "map_of (Header (Request (sample_exchange\<lparr>Request := sample_request\<lparr>Header := [(''X-TenantId'', ''acme'')]\<rparr>\<rparr>)))
      ''Authorization'' = None \<and>
   NewEchoAdapter_middlewares ''default'' sample_config (\<lambda>t. Inl ''unused'') (\<lambda>c. (Returned None, c))
      (sample_exchange\<lparr>Request := sample_request\<lparr>Header := [(''X-TenantId'', ''acme'')]\<rparr>\<rparr>) =
     (Returned None,
      sample_exchange\<lparr>Request := sample_request\<lparr>Header := [(''X-TenantId'', ''acme'')]\<rparr>,
                      AuthKey := Some (AuthValue (anonymous ''acme''))\<rparr>) \<and>
   Authenticated (anonymous ''acme'') = False \<and>
   TenantId (anonymous ''acme'') = ''acme'' \<and>
   NewEchoAdapter_middlewares ''default'' sample_config (\<lambda>t. Inl ''unused'') (\<lambda>c. (Returned None, c))
      sample_exchange =
     (Returned None, sample_exchange\<lparr>AuthKey := Some (AuthValue (anonymous ''default''))\<rparr>)"
  using unauthenticated_request [of "sample_exchange\<lparr>Request := sample_request\<lparr>Header := [(''X-TenantId'', ''acme'')]\<rparr>\<rparr>"
      "''default''" sample_config "\<lambda>t. Inl ''unused''" "\<lambda>c. (Returned None, c)" "''acme''"]
    unauthenticated_request [of sample_exchange
      "''default''" sample_config "\<lambda>t. Inl ''unused''" "\<lambda>c. (Returned None, c)" "''acme''"]
  by (simp add: sample_exchange_def sample_request_def Header_Get_def)

subsection \<open>The claims of a verified token\<close>

lemma optional_claim_Inr:
  "optional_claim claims key f auth = (Inr auth' :: 'v panic_value + Authentication) \<longleftrightarrow>
     (case map_of claims key of
        None \<Rightarrow> auth' = auth
      | Some v \<Rightarrow> (\<exists>s. v = ClaimString s \<and> auth' = f s auth))"
  by (auto simp: optional_claim_def and_then_Inr assert_string_Inr split: option.splits)

lemma phone_claim_Inr:
  "phone_claim claims auth = (Inr auth' :: 'v panic_value + Authentication) \<Longrightarrow>
     auth' = auth \<or> (\<exists>s. auth' = auth\<lparr>PhonerNumber := s\<rparr>)"
  by (auto simp: phone_claim_def optional_claim_Inr and_then_Inr assert_string_Inr split: option.splits)

lemma optional_claim_total:
  "string_or_absent (map_of claims key) \<Longrightarrow>
     \<exists>auth'. optional_claim claims key f auth = (Inr auth' :: 'v panic_value + Authentication)"
  by (auto simp: string_or_absent_cases optional_claim_def and_then_def)

lemma phone_claim_total:
  "string_or_absent (map_of claims ''phone'') \<Longrightarrow>
   (map_of claims ''phone'' = None \<longrightarrow> string_or_absent (map_of claims ''phone_number'')) \<Longrightarrow>
     \<exists>auth'. phone_claim claims auth = (Inr auth' :: 'v panic_value + Authentication)"
  by (auto simp: string_or_absent_cases phone_claim_def optional_claim_def and_then_def)

lemma map_claims_total:
  assumes "optional_claims_are_strings claims"
  shows "\<exists>auth'. map_claims claims auth = (Inr auth' :: 'v panic_value + Authentication)"
proof -
  from assms have s: "string_or_absent (map_of claims ''roles'')" "string_or_absent (map_of claims ''role'')"
    "string_or_absent (map_of claims ''permissions'')" "string_or_absent (map_of claims ''name'')"
    "string_or_absent (map_of claims ''email'')" "string_or_absent (map_of claims ''phone'')"
    "map_of claims ''phone'' = None \<longrightarrow> string_or_absent (map_of claims ''phone_number'')"
    by (simp_all add: optional_claims_are_strings_def)
  obtain a1 where a1: "optional_claim claims ''roles'' (\<lambda>s a. a\<lparr>Roles := strings_Split s CHR '',''\<rparr>) auth = (Inr a1 :: 'v panic_value + Authentication)"
    using optional_claim_total [OF s(1)] by blast
  obtain a2 where a2: "optional_claim claims ''role'' (\<lambda>s a. a\<lparr>Roles := strings_Split s CHR '',''\<rparr>) a1 = (Inr a2 :: 'v panic_value + Authentication)"
    using optional_claim_total [OF s(2)] by blast
  obtain a3 where a3: "optional_claim claims ''permissions'' (\<lambda>s a. a\<lparr>Permissions := strings_Split s CHR '',''\<rparr>) a2 = (Inr a3 :: 'v panic_value + Authentication)"
    using optional_claim_total [OF s(3)] by blast
  obtain a4 where a4: "optional_claim claims ''name'' (\<lambda>s a. a\<lparr>Name := s\<rparr>) a3 = (Inr a4 :: 'v panic_value + Authentication)"
    using optional_claim_total [OF s(4)] by blast
  obtain a5 where a5: "optional_claim claims ''email'' (\<lambda>s a. a\<lparr>Email := s\<rparr>) a4 = (Inr a5 :: 'v panic_value + Authentication)"
    using optional_claim_total [OF s(5)] by blast
  obtain a6 where a6: "phone_claim claims a5 = (Inr a6 :: 'v panic_value + Authentication)"
    using phone_claim_total [OF s(6) s(7)] by blast
  show ?thesis
    unfolding map_claims_def by (simp add: and_then_def a1 a2 a3 a4 a5 a6)
qed

text \<open>
  What the branch for \<^verbatim>\<open>jwt.MapClaims\<close> leaves in the fields, whenever it completes.
\<close>

lemma map_claims_fields:
  assumes "map_claims claims auth = (Inr auth' :: 'v panic_value + Authentication)"
  shows "UserId auth' = UserId auth \<and> Authenticated auth' = Authenticated auth \<and>
         TenantId auth' = TenantId auth \<and> Token auth' = Token auth \<and>
         Claims auth' = copy_claims claims \<and>
         Roles auth' =
           (case map_of claims ''role'' of
              Some (ClaimString b) \<Rightarrow> strings_Split b CHR '',''
            | _ \<Rightarrow> (case map_of claims ''roles'' of
                      Some (ClaimString a) \<Rightarrow> strings_Split a CHR '',''
                    | _ \<Rightarrow> Roles auth))"
proof -
  from assms obtain a1 a2 a3 a4 a5 a6 where
    a1: "optional_claim claims ''roles'' (\<lambda>s a. a\<lparr>Roles := strings_Split s CHR '',''\<rparr>) auth = (Inr a1 :: 'v panic_value + Authentication)" and
    a2: "optional_claim claims ''role'' (\<lambda>s a. a\<lparr>Roles := strings_Split s CHR '',''\<rparr>) a1 = (Inr a2 :: 'v panic_value + Authentication)" and
    a3: "optional_claim claims ''permissions'' (\<lambda>s a. a\<lparr>Permissions := strings_Split s CHR '',''\<rparr>) a2 = (Inr a3 :: 'v panic_value + Authentication)" and
    a4: "optional_claim claims ''name'' (\<lambda>s a. a\<lparr>Name := s\<rparr>) a3 = (Inr a4 :: 'v panic_value + Authentication)" and
    a5: "optional_claim claims ''email'' (\<lambda>s a. a\<lparr>Email := s\<rparr>) a4 = (Inr a5 :: 'v panic_value + Authentication)" and
    a6: "phone_claim claims a5 = (Inr a6 :: 'v panic_value + Authentication)" and
    a7: "auth' = a6\<lparr>Claims := copy_claims claims\<rparr>"
    unfolding map_claims_def and_then_Inr by auto
  have r1: "UserId a1 = UserId auth \<and> Authenticated a1 = Authenticated auth \<and> TenantId a1 = TenantId auth \<and> Token a1 = Token auth \<and>
      Roles a1 = (case map_of claims ''roles'' of Some (ClaimString a) \<Rightarrow> strings_Split a CHR '','' | _ \<Rightarrow> Roles auth)"
    using a1 by (auto simp: optional_claim_Inr split: option.splits)
  have r2: "UserId a2 = UserId a1 \<and> Authenticated a2 = Authenticated a1 \<and> TenantId a2 = TenantId a1 \<and> Token a2 = Token a1 \<and>
      Roles a2 = (case map_of claims ''role'' of Some (ClaimString b) \<Rightarrow> strings_Split b CHR '','' | _ \<Rightarrow> Roles a1)"
    using a2 by (auto simp: optional_claim_Inr split: option.splits)
  have r3: "UserId a3 = UserId a2 \<and> Authenticated a3 = Authenticated a2 \<and> TenantId a3 = TenantId a2 \<and> Token a3 = Token a2 \<and> Roles a3 = Roles a2"
    using a3 by (auto simp: optional_claim_Inr split: option.splits)
  have r4: "UserId a4 = UserId a3 \<and> Authenticated a4 = Authenticated a3 \<and> TenantId a4 = TenantId a3 \<and> Token a4 = Token a3 \<and> Roles a4 = Roles a3"
    using a4 by (auto simp: optional_claim_Inr split: option.splits)
  have r5: "UserId a5 = UserId a4 \<and> Authenticated a5 = Authenticated a4 \<and> TenantId a5 = TenantId a4 \<and> Token a5 = Token a4 \<and> Roles a5 = Roles a4"
    using a5 by (auto simp: optional_claim_Inr split: option.splits)
  have r6: "UserId a6 = UserId a5 \<and> Authenticated a6 = Authenticated a5 \<and> TenantId a6 = TenantId a5 \<and> Token a6 = Token a5 \<and> Roles a6 = Roles a5"
    using phone_claim_Inr [OF a6] by auto
  show ?thesis
    using r1 r2 r3 r4 r5 r6 a7 by (simp split: option.splits claim_value.splits)
qed

lemma SuccessHandler_MapClaims:
  assumes "AuthKey c = Some (TokenValue (MapClaims claims))"
  shows "SuccessHandler D config c =
           and_then
             (map_claims claims
                \<lparr>UserId = parseString claims ''sub'', Authenticated = True,
                 TenantId = (if MultiTenant config \<and> parseString claims ''iss'' \<noteq> []
                             then parseString claims ''iss'' else D),
                 Token = Some \<lparr>Issuer = parseString claims ''iss''\<rparr>, Roles = [], Permissions = [],
                 Name = [], Email = [], PhonerNumber = [], Claims = Map.empty\<rparr>)
             (\<lambda>auth. Inr (c\<lparr>AuthKey := Some (AuthValue auth)\<rparr>))"
  using assms by (simp add: SuccessHandler_def and_then_def Let_def)

lemma resulting_Authentication_and_then:
  "resulting_Authentication (and_then r (\<lambda>auth. Inr (c\<lparr>AuthKey := Some (AuthValue auth)\<rparr>))) = Some auth
     \<longleftrightarrow> r = Inr auth"
  by (cases r) (simp_all add: resulting_Authentication_def and_then_def)

text \<open>
  Claim C9. When the claims hold strings under both \<^verbatim>\<open>roles\<close> and \<^verbatim>\<open>role\<close>, the roles
  of every Authentication Context that \<^verbatim>\<open>SuccessHandler\<close> produces are the comma-split of
  the \<^verbatim>\<open>role\<close> claim; and it produces one whenever the optional claims it asserts are
  strings. The list \<open>claims\<close> is the map in the order of iteration of this run: the
  statement holds for every order, since the two keys are looked up one after the other
  and the iteration only copies the claims.
\<close>

theorem role_overrides_roles:
  assumes "AuthKey c = Some (TokenValue (MapClaims claims))"
    and "map_of claims ''roles'' = Some (ClaimString a)"
    and "map_of claims ''role'' = Some (ClaimString b)"
  shows "(optional_claims_are_strings claims \<longrightarrow>
            resulting_Authentication (SuccessHandler D config c) \<noteq> None) \<and>
         (\<forall>auth. resulting_Authentication (SuccessHandler D config c) = Some auth \<longrightarrow>
            Roles auth = strings_Split b CHR '','')"
proof (intro conjI impI allI)
  assume "optional_claims_are_strings claims"
  then obtain auth' where
    "map_claims claims
       \<lparr>UserId = parseString claims ''sub'', Authenticated = True,
        TenantId = (if MultiTenant config \<and> parseString claims ''iss'' \<noteq> []
                    then parseString claims ''iss'' else D),
        Token = Some \<lparr>Issuer = parseString claims ''iss''\<rparr>, Roles = [], Permissions = [],
        Name = [], Email = [], PhonerNumber = [], Claims = Map.empty\<rparr>
     = (Inr auth' :: 'a panic_value + Authentication)"
    using map_claims_total by blast
  then have "resulting_Authentication (SuccessHandler D config c) = Some auth'"
    by (simp add: SuccessHandler_MapClaims [OF assms(1)] resulting_Authentication_and_then)
  then show "resulting_Authentication (SuccessHandler D config c) \<noteq> None"
    by simp
next
  fix auth
  assume "resulting_Authentication (SuccessHandler D config c) = Some auth"
  then have "map_claims claims
       \<lparr>UserId = parseString claims ''sub'', Authenticated = True,
        TenantId = (if MultiTenant config \<and> parseString claims ''iss'' \<noteq> []
                    then parseString claims ''iss'' else D),
        Token = Some \<lparr>Issuer = parseString claims ''iss''\<rparr>, Roles = [], Permissions = [],
        Name = [], Email = [], PhonerNumber = [], Claims = Map.empty\<rparr>
     = (Inr auth :: 'a panic_value + Authentication)"
    by (simp add: SuccessHandler_MapClaims [OF assms(1)] resulting_Authentication_and_then)
  from map_claims_fields [OF this] show "Roles auth = strings_Split b CHR '',''"
    by (simp add: assms(3))
qed

theorem role_overrides_roles_witness:
  "AuthKey (with_token (sample_claims @ [(''role'', ClaimString ''guest'')])) =
     Some (TokenValue (MapClaims (sample_claims @ [(''role'', ClaimString ''guest'')]))) \<and>
   map_of (sample_claims @ [(''role'', ClaimString ''guest'')]) ''roles'' = Some (ClaimString ''admin,editor'') \<and>
   map_of (sample_claims @ [(''role'', ClaimString ''guest'')]) ''role'' = Some (ClaimString ''guest'') \<and>
   optional_claims_are_strings (sample_claims @ [(''role'', ClaimString ''guest'')]) \<and>
   map_option Roles (resulting_Authentication
      (SuccessHandler ''default'' sample_config
         (with_token (sample_claims @ [(''role'', ClaimString ''guest'')])))) = Some [''guest'']"
proof -
  let ?claims = "sample_claims @ [(''role'', ClaimString ''guest'')]"
  have 1: "AuthKey (with_token ?claims) = Some (TokenValue (MapClaims ?claims))"
    by (simp add: with_token_def)
  have 2: "map_of ?claims ''roles'' = Some (ClaimString ''admin,editor'')"
    by (simp add: sample_claims_def)
  have 3: "map_of ?claims ''role'' = Some (ClaimString ''guest'')"
    by (simp add: sample_claims_def)
  have 4: "optional_claims_are_strings ?claims"
    by (simp add: optional_claims_are_strings_def sample_claims_def)
  have 5: "strings_Split ''guest'' CHR '','' = [''guest'']"
    by simp
  from role_overrides_roles [OF 1 2 3, of "''default''" sample_config] 4 5
  have "map_option Roles (resulting_Authentication
      (SuccessHandler ''default'' sample_config (with_token ?claims))) = Some [''guest'']"
    by auto
  with 1 2 3 4 show ?thesis by blast
qed

text \<open>
  Claim C5, as the code has it. For verified map claims (keys distinct, as in a Go map)
  with subject \<open>s\<close>, issuer \<open>i\<close> and a string \<^verbatim>\<open>roles\<close> claim \<open>r\<close>, whose optional claims
  are strings where present, \<^verbatim>\<open>SuccessHandler\<close> stores an Authentication Context with user
  identifier \<open>s\<close>, authenticated, all claims copied, the tenant \<open>i\<close> when multi-tenancy is
  enabled and \<open>i\<close> is non-empty and \<^verbatim>\<open>micro.DefaultTenantId\<close> otherwise, and the roles
  the comma-split of the \<^verbatim>\<open>role\<close> claim if there is one, of \<open>r\<close> otherwise.
\<close>

theorem authenticated_request:
  assumes "AuthKey c = Some (TokenValue (MapClaims claims))"
    and "distinct (map fst claims)"
    and "map_of claims ''sub'' = Some (ClaimString s)"
    and "map_of claims ''iss'' = Some (ClaimString i)"
    and "map_of claims ''roles'' = Some (ClaimString r)"
    and "optional_claims_are_strings claims"
  shows "\<exists>auth. SuccessHandler D config c = Inr (c\<lparr>AuthKey := Some (AuthValue auth)\<rparr>) \<and>
           UserId auth = s \<and>
           TenantId auth = (if MultiTenant config \<and> i \<noteq> [] then i else D) \<and>
           Authenticated auth = True \<and>
           Roles auth = strings_Split (case map_of claims ''role'' of Some (ClaimString b) \<Rightarrow> b | _ \<Rightarrow> r) CHR '','' \<and>
           Claims auth = map_of claims"
proof -
  let ?base = "\<lparr>UserId = parseString claims ''sub'', Authenticated = True,
        TenantId = (if MultiTenant config \<and> parseString claims ''iss'' \<noteq> []
                    then parseString claims ''iss'' else D),
        Token = Some \<lparr>Issuer = parseString claims ''iss''\<rparr>, Roles = [], Permissions = [],
        Name = [], Email = [], PhonerNumber = [], Claims = Map.empty\<rparr>"
  obtain auth where m: "map_claims claims ?base = (Inr auth :: 'a panic_value + Authentication)"
    using map_claims_total [OF assms(6)] by blast
  have sh: "SuccessHandler D config c = Inr (c\<lparr>AuthKey := Some (AuthValue auth)\<rparr>)"
    by (simp add: SuccessHandler_MapClaims [OF assms(1)] m and_then_def)
  have ps: "parseString claims ''sub'' = s" "parseString claims ''iss'' = i"
    by (simp_all add: parseString_def assms(3,4))
  have role: "string_or_absent (map_of claims ''role'')"
    using assms(6) by (simp add: optional_claims_are_strings_def)
  have "Roles auth = strings_Split (case map_of claims ''role'' of Some (ClaimString b) \<Rightarrow> b | _ \<Rightarrow> r) CHR '',''"
    using map_claims_fields [OF m] role
    by (auto simp: assms(5) string_or_absent_cases)
  moreover have "UserId auth = s" "Authenticated auth = True"
    "TenantId auth = (if MultiTenant config \<and> i \<noteq> [] then i else D)"
    using map_claims_fields [OF m] by (simp_all add: ps)
  moreover have "Claims auth = map_of claims"
    using map_claims_fields [OF m] by (simp add: copy_claims_map_of [OF assms(2)])
  ultimately show ?thesis
    using sh by blast
qed

theorem authenticated_request_witness:
  "AuthKey (with_token sample_claims) = Some (TokenValue (MapClaims sample_claims)) \<and>
   distinct (map fst sample_claims) \<and>
   map_of sample_claims ''sub'' = Some (ClaimString ''u1'') \<and>
   map_of sample_claims ''iss'' = Some (ClaimString ''acme.org'') \<and>
   map_of sample_claims ''roles'' = Some (ClaimString ''admin,editor'') \<and>
   optional_claims_are_strings sample_claims \<and>
   (\<exists>auth. SuccessHandler ''default'' sample_config (with_token sample_claims) =
              Inr ((with_token sample_claims)\<lparr>AuthKey := Some (AuthValue auth)\<rparr>) \<and>
           UserId auth = ''u1'' \<and> TenantId auth = ''acme.org'' \<and> Authenticated auth = True \<and>
           Roles auth = [''admin'', ''editor''] \<and> Claims auth = map_of sample_claims)"
proof -
  have 1: "AuthKey (with_token sample_claims) = Some (TokenValue (MapClaims sample_claims))"
    by (simp add: with_token_def)
  have 2: "distinct (map fst sample_claims)"
    by (simp add: sample_claims_def)
  have 3: "map_of sample_claims ''sub'' = Some (ClaimString ''u1'')"
    by (simp add: sample_claims_def)
  have 4: "map_of sample_claims ''iss'' = Some (ClaimString ''acme.org'')"
    by (simp add: sample_claims_def)
  have 5: "map_of sample_claims ''roles'' = Some (ClaimString ''admin,editor'')"
    by (simp add: sample_claims_def)
  have 6: "optional_claims_are_strings sample_claims"
    by (simp add: optional_claims_are_strings_def sample_claims_def)
  have 7: "map_of sample_claims ''role'' = None"
    by (simp add: sample_claims_def)
  have 8: "strings_Split ''admin,editor'' CHR '','' = [''admin'', ''editor'']"
    by simp
  have 9: "MultiTenant sample_config"
    by (simp add: sample_config_def)
  from authenticated_request [OF 1 2 3 4 5 6, of "''default''" sample_config]
  have "\<exists>auth. SuccessHandler ''default'' sample_config (with_token sample_claims) =
              Inr ((with_token sample_claims)\<lparr>AuthKey := Some (AuthValue auth)\<rparr>) \<and>
           UserId auth = ''u1'' \<and> TenantId auth = ''acme.org'' \<and> Authenticated auth = True \<and>
           Roles auth = [''admin'', ''editor''] \<and> Claims auth = map_of sample_claims"
    by (simp add: 7 8 9)
  with 1 2 3 4 5 6 show ?thesis by blast
qed

text \<open>
  Claim C5 as stated fails when the token also carries a \<^verbatim>\<open>role\<close> claim: the roles are
  then not the comma-split of the \<^verbatim>\<open>roles\<close> claim.
\<close>

theorem roles_claim_overridden_counterexample:
  "map_of (sample_claims @ [(''role'', ClaimString ''guest'')]) ''roles'' = Some (ClaimString ''admin,editor'') \<and>
   map_option Roles (resulting_Authentication
      (SuccessHandler ''default'' sample_config
         (with_token (sample_claims @ [(''role'', ClaimString ''guest'')])))) = Some [''guest''] \<and>
   strings_Split ''admin,editor'' CHR '','' \<noteq> [''guest'']"
  by (simp add: SuccessHandler_def map_claims_def optional_claim_def phone_claim_def and_then_def
      resulting_Authentication_def with_token_def sample_claims_def sample_exchange_def
      sample_config_def parseString_def)

section \<open>Properties of the Generic Dispatcher\<close>




text \<open>
  Claim C3. A handler of malformed shape is rejected with the exchange unchanged: no
  Request Context has been constructed, no transaction begun, the handler not invoked,
  nothing logged or written. A value with a type is rejected with the internal error of
  the failed check, which the route functions hand on as it is; for the nil interface,
  which has no type, the rejection is the runtime error raised by the first check.
\<close>

theorem malformed_handler_rejected:
  assumes "malformed handler"
  shows "handleRequest D E c handler =
           (case handler of
              NilHandler \<Rightarrow> Panicked nil_dereference_panic
            | NonFunc v \<Rightarrow> Returned (Some (OtherError ''controller method is not a function''))
            | Func ins call \<Rightarrow>
                if length ins = 0 then
                  Returned (Some (OtherError
                    ''controller method must have at least one argument (micro.Ctx)''))
                else if length ins > 2 then
                  Returned (Some (OtherError
                    ''controller method must have at most two arguments (micro.Ctx, input binding)''))
                else
                  Returned (Some (OtherError
                    ''handler must be a function with the first argument of type micro.Ctx'')),
            c) \<and>
         (handler \<noteq> NilHandler \<longrightarrow>
            echoRouterAdapter_request D E handler c = handleRequest D E c handler \<and>
            echoGroupRoute_request D E handler c = handleRequest D E c handler)"
proof (cases handler)
  case NilHandler
  then show ?thesis by (simp add: handleRequest_def)
next
  case (NonFunc v)
  then show ?thesis
    by (simp add: handleRequest_def echoRouterAdapter_request_def echoGroupRoute_request_def)
next
  case (Func ins call)
  with assms have "length ins = 0 \<or> length ins > 2 \<or> hd ins \<noteq> CtxType"
    by simp
  moreover have "ins \<noteq> [] \<Longrightarrow> ins ! 0 = hd ins"
    by (simp add: hd_conv_nth)
  ultimately show ?thesis
    using Func
    by (auto simp: handleRequest_def echoRouterAdapter_request_def echoGroupRoute_request_def Let_def)
qed

theorem malformed_handler_rejected_witness:
  "malformed (Func [OtherType ''Order'', CtxType] (\<lambda>ctx input. Returns [NilValue :: nat go_value])) \<and>
   handleRequest ''default'' sample_collaborators sample_exchange
      (Func [OtherType ''Order'', CtxType] (\<lambda>ctx input. Returns [NilValue])) =
     (Returned (Some (OtherError
        ''handler must be a function with the first argument of type micro.Ctx'')),
      sample_exchange) \<and>
   echoRouterAdapter_request ''default'' sample_collaborators
      (Func [OtherType ''Order'', CtxType] (\<lambda>ctx input. Returns [NilValue])) sample_exchange =
     (Returned (Some (OtherError
        ''handler must be a function with the first argument of type micro.Ctx'')),
      sample_exchange)"
  using malformed_handler_rejected [of "Func [OtherType ''Order'', CtxType] (\<lambda>ctx input. Returns [NilValue])"
      "''default''" sample_collaborators sample_exchange]
  by simp




text \<open>
  What a route does with the two values a one-parameter handler returns: a nil second
  value gives status 200 with the first value as payload; an error as second value is
  returned from the route as it is, with no response written (line 368 returns it, so
  the mapping of lines 374 to 377 is never reached).
\<close>

lemma handler_result_interpreted:
  assumes "createRouteContext D c = Inr ctx"
    and "call ctx None = Returns [payload, second]"
  shows "echoRouterAdapter_request D E (Func [CtxType] call) c =
           (case second of
              NilValue \<Rightarrow>
                (Returned None,
                 c\<lparr>effects := effects c @ ContextCreated ctx #
                    (if ctx_TenantId ctx = [] then [] else [Logged (CurrentTenantLog (ctx_TenantId ctx))]) @
                    [TxBegin, HandlerInvoked ctx None, Response 200 (JsonPayload payload), TxCommit]\<rparr>)
            | ErrorValue e \<Rightarrow>
                (Returned (Some e),
                 c\<lparr>effects := effects c @ ContextCreated ctx #
                    (if ctx_TenantId ctx = [] then [] else [Logged (CurrentTenantLog (ctx_TenantId ctx))]) @
                    [TxBegin, HandlerInvoked ctx None, TxRollback]\<rparr>)
            | PointerValue v \<Rightarrow>
                (Returned (Some (OtherError ''interface conversion'')),
                 c\<lparr>effects := effects c @ ContextCreated ctx #
                    (if ctx_TenantId ctx = [] then [] else [Logged (CurrentTenantLog (ctx_TenantId ctx))]) @
                    [TxBegin, HandlerInvoked ctx None, TxRollback,
                     Logged (MapHttpResponseLog (RequestURI (Request c)) (OtherError ''interface conversion''))]\<rparr>)
            | ScalarValue v \<Rightarrow>
                (Returned (Some (OtherError ''reflect: call of reflect.Value.IsNil on a value without nil'')),
                 c\<lparr>effects := effects c @ ContextCreated ctx #
                    (if ctx_TenantId ctx = [] then [] else [Logged (CurrentTenantLog (ctx_TenantId ctx))]) @
                    [TxBegin, HandlerInvoked ctx None, TxRollback,
                     Logged (MapHttpResponseLog (RequestURI (Request c))
                       (OtherError ''reflect: call of reflect.Value.IsNil on a value without nil''))]\<rparr>))"
  using assms
  by (cases second)
     (simp_all add: echoRouterAdapter_request_def handleRequest_def Tx_def unit_of_work_def
        invoke_def respond_def mapHttpResponse_def JSON_def emit_def Let_def
        type_assertion_panic_def IsNil_panic_def)

text \<open>
  Claim C2, at a handler that returns \<^verbatim>\<open>(nil, err)\<close> with a Functional error: the route
  returns the error itself to the transport; the Error Mapper has not run and no
  response with status 400 has been written.
\<close>

theorem handler_error_not_mapped:
  "echoRouterAdapter_request ''default'' sample_collaborators failing_handler sample_exchange =
     (Returned (Some (FunctionalError ''order'' ''order.invalid'' 7)),
      sample_exchange\<lparr>effects :=
        [ContextCreated (NewCtx ''default''), Logged (CurrentTenantLog ''default''), TxBegin,
         HandlerInvoked (NewCtx ''default'') None, TxRollback]\<rparr>)"
  by (simp add: dispatch_defs failing_handler_def)

section \<open>Properties of the Router Facade\<close>

text \<open>
  Claim C7, as the code has it. A panic of dispatch that carries an error is recovered
  by both route functions and the error goes through the Error Mapper, whose result is
  the result of the route; a Technical error gives status 500 with the mapped body.
\<close>

theorem error_panic_is_mapped:
  assumes "handleRequest D E c handler = (Panicked (PanicError e), c1)"
  shows "echoRouterAdapter_request D E handler c =
           (Returned (fst (mapHttpResponse e c1)), snd (mapHttpResponse e c1)) \<and>
         echoGroupRoute_request D E handler c =
           (Returned (fst (mapHttpResponse e (emit (Logged (RecoveredLog (PanicError e))) c1))),
            snd (mapHttpResponse e (emit (Logged (RecoveredLog (PanicError e))) c1))) \<and>
         (\<forall>k m d. e = TechnicalError k m d \<longrightarrow>
            echoRouterAdapter_request D E handler c =
              (Returned None,
               emit (Response 500 (ErrorResponse k m d))
                 (emit (Logged (MapHttpResponseLog (RequestURI (Request c1)) e)) c1)))"
proof (intro conjI allI impI)
  show "echoRouterAdapter_request D E handler c =
          (Returned (fst (mapHttpResponse e c1)), snd (mapHttpResponse e c1))"
    using assms by (simp add: echoRouterAdapter_request_def case_prod_unfold Let_def)
  show "echoGroupRoute_request D E handler c =
          (Returned (fst (mapHttpResponse e (emit (Logged (RecoveredLog (PanicError e))) c1))),
           snd (mapHttpResponse e (emit (Logged (RecoveredLog (PanicError e))) c1)))"
    using assms by (simp add: echoGroupRoute_request_def case_prod_unfold Let_def)
next
  fix k m d
  assume "e = TechnicalError k m d"
  then show "echoRouterAdapter_request D E handler c =
          (Returned None,
           emit (Response 500 (ErrorResponse k m d))
             (emit (Logged (MapHttpResponseLog (RequestURI (Request c1)) e)) c1))"
    using assms
    by (simp add: echoRouterAdapter_request_def mapHttpResponse_def JSON_def)
qed

theorem error_panic_is_mapped_witness:
  "handleRequest ''default'' sample_collaborators sample_exchange
      (panicking_handler (PanicError (TechnicalError ''db'' ''db.down'' 5))) =
     (Panicked (PanicError (TechnicalError ''db'' ''db.down'' 5)),
      sample_exchange\<lparr>effects :=
        [ContextCreated (NewCtx ''default''), Logged (CurrentTenantLog ''default''), TxBegin,
         HandlerInvoked (NewCtx ''default'') None, TxRollback]\<rparr>) \<and>
   echoRouterAdapter_request ''default'' sample_collaborators
      (panicking_handler (PanicError (TechnicalError ''db'' ''db.down'' 5))) sample_exchange =
     (Returned None,
      sample_exchange\<lparr>effects :=
        [ContextCreated (NewCtx ''default''), Logged (CurrentTenantLog ''default''), TxBegin,
         HandlerInvoked (NewCtx ''default'') None, TxRollback,
         Logged (MapHttpResponseLog ''/orders'' (TechnicalError ''db'' ''db.down'' 5)),
         Response 500 (ErrorResponse ''db'' ''db.down'' 5)]\<rparr>)"
proof -
  let ?c1 = "sample_exchange\<lparr>effects :=
        [ContextCreated (NewCtx ''default''), Logged (CurrentTenantLog ''default''), TxBegin,
         HandlerInvoked (NewCtx ''default'') None, TxRollback]\<rparr>"
  have h: "handleRequest ''default'' sample_collaborators sample_exchange
      (panicking_handler (PanicError (TechnicalError ''db'' ''db.down'' 5))) =
     (Panicked (PanicError (TechnicalError ''db'' ''db.down'' 5)), ?c1)"
    by (simp add: dispatch_defs panicking_handler_def)
  from error_panic_is_mapped [OF h]
  have "echoRouterAdapter_request ''default'' sample_collaborators
      (panicking_handler (PanicError (TechnicalError ''db'' ''db.down'' 5))) sample_exchange =
     (Returned None,
      emit (Response 500 (ErrorResponse ''db'' ''db.down'' 5))
        (emit (Logged (MapHttpResponseLog (RequestURI (Request ?c1)) (TechnicalError ''db'' ''db.down'' 5))) ?c1))"
    by blast
  then show ?thesis
    using h by (simp add: emit_def sample_exchange_def sample_request_def)
qed

text \<open>
  Claim C7 as stated fails for a panic whose value is no error: the route does not map
  it, it panics again.
\<close>

theorem string_panic_not_mapped_counterexample:
  "echoRouterAdapter_request ''default'' sample_collaborators
      (panicking_handler (PanicValue 3)) sample_exchange =
     (Panicked (PanicError (OtherError ''interface conversion'')),
      sample_exchange\<lparr>effects :=
        [ContextCreated (NewCtx ''default''), Logged (CurrentTenantLog ''default''), TxBegin,
         HandlerInvoked (NewCtx ''default'') None, TxRollback]\<rparr>)"
  by (simp add: dispatch_defs panicking_handler_def type_assertion_panic_def)

lemma handleRequest_panic_no_response:
  assumes "handleRequest D E c handler = (Panicked p, c1)"
  shows "\<exists>new. effects c1 = effects c @ new \<and> (\<forall>ev \<in> set new. \<not> is_Response ev)"
  using assms
  by (auto simp: handleRequest_def Tx_def unit_of_work_def invoke_def respond_def Bind_def
        mapHttpResponse_def JSON_def Let_def is_Response_def
      split: handler.splits if_splits sum.splits prod.splits outcome.splits option.splits
        call_result.splits go_value.splits go_error.splits validation_result.splits)

text \<open>
  Claim C10. When dispatch panics with a value that is no error, the assertion
  \<^verbatim>\<open>err0.(error)\<close> of the deferred function fails: both route functions panic with the
  runtime error of the assertion (the group route after logging the recovered value),
  the Error Mapper does not run, and no response has been written since the request
  entered dispatch.
\<close>

theorem non_error_panic_not_mapped:
  assumes "handleRequest D E c handler = (Panicked (PanicValue v), c1)"
  shows "echoRouterAdapter_request D E handler c = (Panicked type_assertion_panic, c1) \<and>
         echoGroupRoute_request D E handler c =
           (Panicked type_assertion_panic, emit (Logged (RecoveredLog (PanicValue v))) c1) \<and>
         (\<exists>new. effects c1 = effects c @ new \<and> (\<forall>ev \<in> set new. \<not> is_Response ev))"
  using assms handleRequest_panic_no_response [OF assms]
  by (simp add: echoRouterAdapter_request_def echoGroupRoute_request_def Let_def)

theorem non_error_panic_not_mapped_witness:
  "handleRequest ''default'' sample_collaborators sample_exchange (panicking_handler (PanicValue 9)) =
     (Panicked (PanicValue 9),
      sample_exchange\<lparr>effects :=
        [ContextCreated (NewCtx ''default''), Logged (CurrentTenantLog ''default''), TxBegin,
         HandlerInvoked (NewCtx ''default'') None, TxRollback]\<rparr>) \<and>
   echoGroupRoute_request ''default'' sample_collaborators (panicking_handler (PanicValue 9)) sample_exchange =
     (Panicked type_assertion_panic,
      sample_exchange\<lparr>effects :=
        [ContextCreated (NewCtx ''default''), Logged (CurrentTenantLog ''default''), TxBegin,
         HandlerInvoked (NewCtx ''default'') None, TxRollback,
         Logged (RecoveredLog (PanicValue 9))]\<rparr>)"
proof -
  have h: "handleRequest ''default'' sample_collaborators sample_exchange (panicking_handler (PanicValue 9)) =
     (Panicked (PanicValue 9),
      sample_exchange\<lparr>effects :=
        [ContextCreated (NewCtx ''default''), Logged (CurrentTenantLog ''default''), TxBegin,
         HandlerInvoked (NewCtx ''default'') None, TxRollback]\<rparr>)"
    by (simp add: dispatch_defs panicking_handler_def)
  from non_error_panic_not_mapped [OF h] h show ?thesis
    by (simp add: emit_def)
qed

end
